theory Spec2Isabelle
  imports Main "HOL-Library.AList"
begin

section \<open>The build helper of delta-optimizer: build_and_install.py\<close>

text \<open>
  The script drives external tools from a text menu. Everything it touches outside its
  own variables is made explicit in a record \<open>world\<close>: the working directory, the lines
  still to be read from standard input, what was written to standard output, the
  commands spawned so far, the date, and the behaviour of the external commands.

  Text is \<open>string\<close>: a list of 8-bit characters read as the code points 0 to 255
  (Latin-1). The emoji of the printed messages lie outside that range and are kept as
  their UTF-8 bytes; the script only prints them.
\<close>

subsection \<open>Files and directories\<close>

text \<open>
  A file holds bytes or is a ZIP archive, a list of members (name in the archive,
  content) in the order they were written. A directory lists its entries in the order
  a scan of it reports them. A symbolic link holds what its target resolves to, or
  nothing when it dangles; the links of the model point out of the working directory,
  so that what a link resolves to does not change when an entry of the working
  directory is removed or written. Permissions and full disks are outside the model:
  every directory can be read and removed, every file read and replaced.
\<close>

datatype content = Bytes string | Archive "(string \<times> content) list"

datatype node = File content | Dir "(string \<times> node) list" | Symlink "node option"

text \<open>What \<^verbatim>\<open>stat\<close> sees at a node: links are followed to the end.\<close>

fun follow :: "node \<Rightarrow> node option" where
  "follow (File c) = Some (File c)"
| "follow (Dir es) = Some (Dir es)"
| "follow (Symlink None) = None"
| "follow (Symlink (Some n)) = follow n"

type_synonym fsys = "(string \<times> node) list"

text \<open>\<^verbatim>\<open>path.split('/')\<close>.\<close>

fun split_slash :: "string \<Rightarrow> string list" where
  "split_slash [] = [[]]"
| "split_slash (c # cs) =
     (if c = CHR ''/'' then [] # split_slash cs
      else (case split_slash cs of [] \<Rightarrow> [[c]] | x # xs \<Rightarrow> (c # x) # xs))"

text \<open>
  Resolution of a relative path, from the working directory, following links: an empty
  component (a doubled or trailing slash) stays where it is, which needs a directory
  there, so \<^verbatim>\<open>'name/'\<close> resolves only when \<^verbatim>\<open>name\<close> is a directory or a link to
  one. The empty path names nothing, and neither does a dangling link.
\<close>

fun walk_path :: "node \<Rightarrow> string list \<Rightarrow> node option" where
  "walk_path n [] = follow n"
| "walk_path n (x # xs) =
     (case follow n of
        Some (Dir es) \<Rightarrow>
          (if x = [] then walk_path (Dir es) xs
           else (case map_of es x of None \<Rightarrow> None | Some m \<Rightarrow> walk_path m xs))
      | _ \<Rightarrow> None)"

definition resolve :: "fsys \<Rightarrow> string \<Rightarrow> node option" where
  "resolve cwd p = (if p = [] then None else walk_path (Dir cwd) (split_slash p))"

definition os_path_exists :: "fsys \<Rightarrow> string \<Rightarrow> bool" where
  "os_path_exists cwd p = (resolve cwd p \<noteq> None)"

definition os_path_isdir :: "fsys \<Rightarrow> string \<Rightarrow> bool" where
  "os_path_isdir cwd p = (case resolve cwd p of Some (Dir es) \<Rightarrow> True | _ \<Rightarrow> False)"

text \<open>\<^verbatim>\<open>os.path.join(a, b)\<close> for a relative \<open>b\<close>.\<close>

definition os_path_join :: "string \<Rightarrow> string \<Rightarrow> string" where
  "os_path_join a b =
     (if a = [] \<or> last a = CHR ''/'' then a @ b else a @ ''/'' @ b)"

text \<open>\<^verbatim>\<open>s.rstrip('/')\<close> and \<^verbatim>\<open>os.path.dirname(p)\<close>.\<close>

definition rstrip_slash :: "string \<Rightarrow> string" where
  "rstrip_slash s = rev (dropWhile (\<lambda>c. c = CHR ''/'') (rev s))"

definition os_path_dirname :: "string \<Rightarrow> string" where
  "os_path_dirname p =
     (let head = rev (dropWhile (\<lambda>c. c \<noteq> CHR ''/'') (rev p))
      in if head \<noteq> [] \<and> \<not> list_all (\<lambda>c. c = CHR ''/'') head then rstrip_slash head
         else head)"

text \<open>
  \<^verbatim>\<open>os.path.relpath(path, start)\<close> for two relative paths without \<^verbatim>\<open>.\<close> and
  \<^verbatim>\<open>..\<close> components: the components of both below the working directory, the common
  prefix dropped, one \<^verbatim>\<open>..\<close> for each component of \<open>start\<close> that is left.
\<close>

fun common_prefix_len :: "string list \<Rightarrow> string list \<Rightarrow> nat" where
  "common_prefix_len (x # xs) (y # ys) = (if x = y then Suc (common_prefix_len xs ys) else 0)"
| "common_prefix_len _ _ = 0"

fun join_slash :: "string list \<Rightarrow> string" where
  "join_slash [] = []"
| "join_slash [x] = x"
| "join_slash (x # y # ys) = os_path_join x (join_slash (y # ys))"

definition os_path_relpath :: "string \<Rightarrow> string \<Rightarrow> string" where
  "os_path_relpath path start =
     (let start_list = filter (\<lambda>x. x \<noteq> []) (split_slash start);
          path_list = filter (\<lambda>x. x \<noteq> []) (split_slash path);
          i = common_prefix_len start_list path_list;
          rel_list = replicate (length start_list - i) ''..'' @ drop i path_list
      in if rel_list = [] then ''.'' else join_slash rel_list)"

text \<open>
  \<^verbatim>\<open>os.walk(top)\<close>, top-down, with the inner loop over \<open>files\<close> already run: the
  entries of the directory that are not directories as \<^verbatim>\<open>os.path.join(root, file)\<close>
  with the content a read of them gives, then those of each subdirectory in turn. A
  link to a file is read through; a dangling link is listed among the files and cannot
  be read (no content); a link to a directory is listed among the directories and not
  walked into.
\<close>

fun scanned_file :: "string \<Rightarrow> string \<Rightarrow> node \<Rightarrow> (string \<times> content option) list" where
  "scanned_file root n (File c) = [(os_path_join root n, Some c)]"
| "scanned_file root n (Dir es) = []"
| "scanned_file root n (Symlink t) =
     (case follow (Symlink t) of
        None \<Rightarrow> [(os_path_join root n, None)]
      | Some (File c) \<Rightarrow> [(os_path_join root n, Some c)]
      | _ \<Rightarrow> [])"

fun walk_files :: "string \<Rightarrow> (string \<times> node) list \<Rightarrow> (string \<times> content option) list"
  and walk_dirs :: "string \<Rightarrow> (string \<times> node) list \<Rightarrow> (string \<times> content option) list" where
  "walk_files root es =
     concat (map (\<lambda>(n, x). scanned_file root n x) es) @ walk_dirs root es"
| "walk_dirs root [] = []"
| "walk_dirs root ((n, File c) # es) = walk_dirs root es"
| "walk_dirs root ((n, Symlink t) # es) = walk_dirs root es"
| "walk_dirs root ((n, Dir sub) # es) = walk_files (os_path_join root n) sub @ walk_dirs root es"

subsection \<open>The world outside the script\<close>

text \<open>
  What an external command did: its exit status, whether the bytes it wrote to the two
  captured pipes decode as text and, if so, that text, and the working directory and
  standard input it left behind (a child inherits standard input and may read from it).
\<close>

record proc =
  returncode :: int
  decodable :: bool
  stdout :: string
  stderr :: string
  fs_after :: fsys
  stdin_after :: "string list"

text \<open>The calendar date of \<^verbatim>\<open>datetime.now()\<close>; a datetime's year is 1 to 9999.\<close>

record date =
  year :: nat
  month :: nat
  day :: nat

text \<open>
  \<open>out\<close> has one entry for each \<^verbatim>\<open>print\<close> (its text, without the newline that
  print adds) and each \<^verbatim>\<open>input\<close> (its prompt). \<open>cmds\<close> lists the command lines
  handed to \<^verbatim>\<open>subprocess.run\<close>, oldest first. \<open>shell\<close> is the environment's answer
  to a command line, given the commands run before it, the working directory and the
  pending input.
\<close>

record world =
  fs :: fsys
  stdin :: "string list"
  out :: "string list"
  cmds :: "string list"
  today :: date
  shell :: "string \<Rightarrow> string list \<Rightarrow> fsys \<Rightarrow> string list \<Rightarrow> proc"

subsection \<open>Values, exceptions and sequencing\<close>

datatype pyval = PyNone | PyBool bool | PyStr string

text \<open>Python's truth value of an object.\<close>

fun truthy :: "pyval \<Rightarrow> bool" where
  "truthy PyNone = False"
| "truthy (PyBool b) = b"
| "truthy (PyStr s) = (s \<noteq> [])"

text \<open>
  The exceptions that can arise: \<open>CalledProcessError\<close> carries the exit status and the
  captured output.
\<close>

datatype error =
    CalledProcessError int string string
  | UnicodeDecodeError
  | ValueError
  | EOFError
  | SystemExit
  | OSError
  | FileNotFoundError
  | NotADirectoryError
  | IsADirectoryError

text \<open>
  A statement maps the world to a result and the world it leaves: \<open>Inr\<close> a value,
  \<open>Inl\<close> an exception on its way up. The world is kept in both cases, since what was
  printed or deleted before an exception stays so.
\<close>

type_synonym 'a io = "world \<Rightarrow> (error + 'a) \<times> world"

definition io_return :: "'a \<Rightarrow> 'a io" where
  "io_return x = (\<lambda>w. (Inr x, w))"

definition io_raise :: "error \<Rightarrow> 'a io" where
  "io_raise e = (\<lambda>w. (Inl e, w))"

definition io_bind :: "'a io \<Rightarrow> ('a \<Rightarrow> 'b io) \<Rightarrow> 'b io" where
  "io_bind m f = (\<lambda>w. case m w of (Inl e, w') \<Rightarrow> (Inl e, w') | (Inr x, w') \<Rightarrow> f x w')"

text \<open>\<^verbatim>\<open>try: m  except ...: h e\<close>; a handler re-raises what its clause does not name.\<close>

definition io_catch :: "'a io \<Rightarrow> (error \<Rightarrow> 'a io) \<Rightarrow> 'a io" where
  "io_catch m h = (\<lambda>w. case m w of (Inl e, w') \<Rightarrow> h e w' | (Inr x, w') \<Rightarrow> (Inr x, w'))"

text \<open>\<^verbatim>\<open>a() and b()\<close>: \<open>b\<close> runs only when the value of \<open>a\<close> is true; otherwise that
  value is the result.\<close>

definition py_and :: "pyval io \<Rightarrow> pyval io \<Rightarrow> pyval io" where
  "py_and a b = io_bind a (\<lambda>v. if truthy v then b else io_return v)"

subsection \<open>Built-ins and library calls\<close>

definition print :: "string \<Rightarrow> pyval io" where
  "print s = (\<lambda>w. (Inr PyNone, w\<lparr>out := out w @ [s]\<rparr>))"

text \<open>\<^verbatim>\<open>input(prompt)\<close> writes the prompt and reads a line; at end of input it raises.\<close>

definition input :: "string \<Rightarrow> string io" where
  "input prompt = (\<lambda>w.
     case stdin w of
       [] \<Rightarrow> (Inl EOFError, w\<lparr>out := out w @ [prompt]\<rparr>)
     | l # ls \<Rightarrow> (Inr l, w\<lparr>out := out w @ [prompt], stdin := ls\<rparr>))"

definition sys_exit :: "pyval io" where
  "sys_exit = io_raise SystemExit"

text \<open>
  \<^verbatim>\<open>subprocess.run(command, shell=True, check=True, capture_output=True, text=True)\<close>:
  a command line with a NUL character in it is refused before anything is spawned.
  Otherwise the command runs to its end and its output goes to the returned object, not
  to \<open>out\<close>. Decoding the captured bytes comes first and raises when they are not
  text; then a non-zero exit status raises. A shell that cannot be spawned is outside
  the model, as is a \<^verbatim>\<open>print\<close> that fails.
\<close>

definition subprocess_run :: "string \<Rightarrow> proc io" where
  "subprocess_run command = (\<lambda>w.
     if CHR 0x00 \<in> set command then (Inl ValueError, w)
     else
       let p = shell w command (cmds w) (fs w) (stdin w);
           w' = w\<lparr>fs := fs_after p, stdin := stdin_after p, cmds := cmds w @ [command]\<rparr>
       in if \<not> decodable p then (Inl UnicodeDecodeError, w')
          else if returncode p \<noteq> 0
          then (Inl (CalledProcessError (returncode p) (stdout p) (stderr p)), w')
          else (Inr p, w'))"

text \<open>
  \<^verbatim>\<open>shutil.rmtree(name)\<close> for a name in the working directory: it removes a
  directory with all it holds, and refuses a regular file and a symbolic link (a
  dangling one as a path that is not there).
\<close>

definition shutil_rmtree :: "string \<Rightarrow> pyval io" where
  "shutil_rmtree name = (\<lambda>w.
     case map_of (fs w) name of
       None \<Rightarrow> (Inl FileNotFoundError, w)
     | Some (File c) \<Rightarrow> (Inl NotADirectoryError, w)
     | Some (Symlink t) \<Rightarrow>
         (if follow (Symlink t) = None then (Inl FileNotFoundError, w) else (Inl OSError, w))
     | Some (Dir es) \<Rightarrow> (Inr PyNone, w\<lparr>fs := AList.delete name (fs w)\<rparr>))"

text \<open>
  Writing a file of a given name in the working directory, the name not resolving to a
  directory: a new file is created, an old one replaced, and a link is written
  through, which creates its target when it dangles.
\<close>

fun write_node :: "node \<Rightarrow> content \<Rightarrow> node" where
  "write_node (File old) c = File c"
| "write_node (Dir es) c = Dir es"
| "write_node (Symlink None) c = Symlink (Some (File c))"
| "write_node (Symlink (Some n)) c = Symlink (Some (write_node n c))"

definition put_file :: "string \<Rightarrow> content \<Rightarrow> fsys \<Rightarrow> fsys" where
  "put_file name c cwd =
     AList.update name (case map_of cwd name of None \<Rightarrow> File c | Some n \<Rightarrow> write_node n c) cwd"

text \<open>
  \<^verbatim>\<open>zipfile.ZipFile(name, 'w')\<close> for a name in the working directory: the file is
  created or truncated; a directory of that name, or a link to one, cannot be opened
  for writing.
\<close>

definition zip_open :: "string \<Rightarrow> pyval io" where
  "zip_open name = (\<lambda>w.
     if os_path_isdir (fs w) name then (Inl IsADirectoryError, w)
     else (Inr PyNone, w\<lparr>fs := put_file name (Archive []) (fs w)\<rparr>))"

text \<open>
  Leaving the \<^verbatim>\<open>with\<close> block closes the archive, also when an exception leaves
  it: the members written so far reach the file.
\<close>

definition zip_close :: "string \<Rightarrow> (string \<times> content) list \<Rightarrow> pyval io" where
  "zip_close name members = (\<lambda>w.
     (Inr PyNone, w\<lparr>fs := put_file name (Archive members) (fs w)\<rparr>))"

text \<open>
  \<^verbatim>\<open>datetime.now().strftime('%Y%m%d')\<close>: the year in four digits, the month and the
  day in two, each padded with zeros. The four digits are the whole year, a datetime's
  year being at most 9999.
\<close>

definition digit :: "nat \<Rightarrow> char" where
  "digit n = char_of (48 + n mod 10)"

definition strftime_Ymd :: "date \<Rightarrow> string" where
  "strftime_Ymd d =
     [digit (year d div 1000), digit (year d div 100), digit (year d div 10), digit (year d),
      digit (month d div 10), digit (month d),
      digit (day d div 10), digit (day d)]"

text \<open>
  \<^verbatim>\<open>str.strip()\<close> and \<^verbatim>\<open>str.lower()\<close> on Latin-1 text: the white space of
  \<^verbatim>\<open>str.isspace\<close> below 256, and the capital letters A to Z and 0xC0 to 0xDE
  (without the multiplication sign 0xD7), which lie 32 below their small letters.
\<close>

definition is_space :: "char \<Rightarrow> bool" where
  "is_space c = ((of_char c :: nat) \<in> {9, 10, 11, 12, 13, 28, 29, 30, 31, 32, 133, 160})"

definition strip :: "string \<Rightarrow> string" where
  "strip s = rev (dropWhile is_space (rev (dropWhile is_space s)))"

definition lower_char :: "char \<Rightarrow> char" where
  "lower_char c =
     (let n = (of_char c :: nat)
      in if (65 \<le> n \<and> n \<le> 90) \<or> (192 \<le> n \<and> n \<le> 222 \<and> n \<noteq> 215)
         then char_of (n + 32) else c)"

definition lower :: "string \<Rightarrow> string" where
  "lower s = map lower_char s"

subsection \<open>The emoji of the messages, as UTF-8 bytes\<close>

definition rocket :: string where "rocket = [CHR 0xF0, CHR 0x9F, CHR 0x9A, CHR 0x80]"
definition check_mark :: string where "check_mark = [CHR 0xE2, CHR 0x9C, CHR 0x85]"
definition cross_mark :: string where "cross_mark = [CHR 0xE2, CHR 0x9D, CHR 0x8C]"
definition broom :: string where "broom = [CHR 0xF0, CHR 0x9F, CHR 0xA7, CHR 0xB9]"
definition outbox :: string where "outbox = [CHR 0xF0, CHR 0x9F, CHR 0x93, CHR 0xA4]"
definition package :: string where "package = [CHR 0xF0, CHR 0x9F, CHR 0x93, CHR 0xA6]"
definition clipboard :: string where "clipboard = [CHR 0xF0, CHR 0x9F, CHR 0x93, CHR 0x8B]"

subsection \<open>The operations of the script\<close>

text \<open>\<^verbatim>\<open>run_command(command, description)\<close>.\<close>

definition run_command :: "string \<Rightarrow> string \<Rightarrow> pyval io" where
  "run_command command description =
     io_bind (print (rocket @ '' '' @ description @ ''...'')) (\<lambda>_.
     io_catch
       (io_bind (subprocess_run command) (\<lambda>result.
        io_bind (print (check_mark @ '' '' @ description @ '' completed successfully'')) (\<lambda>_.
        io_return (PyBool True))))
       (\<lambda>e. case e of
          CalledProcessError rc sout serr \<Rightarrow>
            io_bind (print (cross_mark @ '' '' @ description @ '' failed:'')) (\<lambda>_.
            io_bind (print (''Error: '' @ serr)) (\<lambda>_.
            io_return (PyBool False)))
        | _ \<Rightarrow> io_raise e))"

text \<open>
  \<^verbatim>\<open>clean_build_files()\<close>: the loop over \<open>build_dirs\<close>, and the function, which has no
  \<^verbatim>\<open>return\<close> statement and so returns \<^verbatim>\<open>None\<close>.
\<close>

definition build_dirs :: "string list" where
  "build_dirs = [''build'', ''dist'', ''delta_optimizer.egg-info'']"

fun clean_loop :: "string list \<Rightarrow> pyval io" where
  "clean_loop [] = io_return PyNone"
| "clean_loop (dir_name # rest) = (\<lambda>w.
     if os_path_exists (fs w) dir_name
     then io_bind (shutil_rmtree dir_name) (\<lambda>_.
          io_bind (print (broom @ '' Removed '' @ dir_name @ ''/'')) (\<lambda>_.
          clean_loop rest)) w
     else clean_loop rest w)"

definition clean_build_files :: "pyval io" where
  "clean_build_files = io_bind (clean_loop build_dirs) (\<lambda>_. io_return PyNone)"

text \<open>\<^verbatim>\<open>build_package()\<close>.\<close>

definition build_commands :: "string list" where
  "build_commands = [''python setup.py sdist bdist_wheel'', ''python -m build'']"

fun build_loop :: "string list \<Rightarrow> pyval io" where
  "build_loop [] = io_return (PyBool True)"
| "build_loop (cmd # rest) =
     io_bind (run_command cmd ''Building package'') (\<lambda>ok.
     if \<not> truthy ok then io_return (PyBool False) else build_loop rest)"

definition build_package :: "pyval io" where
  "build_package = build_loop build_commands"

text \<open>\<^verbatim>\<open>install_locally()\<close>.\<close>

definition install_locally :: "pyval io" where
  "install_locally = run_command ''pip install .'' ''Installing package locally''"

text \<open>\<^verbatim>\<open>upload_to_pypi()\<close>.\<close>

definition upload_to_pypi :: "pyval io" where
  "upload_to_pypi =
     io_bind (print (outbox @ '' Uploading to PyPI...'')) (\<lambda>_.
     io_bind (print ''Note: Make sure you have:'') (\<lambda>_.
     io_bind (print ''1. twine installed: pip install twine'') (\<lambda>_.
     io_bind (print ''2. PyPI credentials in ~/.pypirc'') (\<lambda>_.
     io_bind (print ''3. Package version updated in setup.py'') (\<lambda>_.
     io_bind (input ''Continue with upload? (y/N): '') (\<lambda>response.
     if lower response \<noteq> ''y''
     then io_bind (print ''Upload cancelled'') (\<lambda>_. io_return (PyBool False))
     else run_command ''twine upload dist/*'' ''Uploading to PyPI''))))))"

text \<open>\<^verbatim>\<open>run_tests()\<close>.\<close>

definition tests :: "string list" where
  \<open>tests =
     [''python -c "import delta_optimizer; print('' @ [CHR 0x27] @ check_mark
        @ '' Import successful'' @ [CHR 0x27] @ '')"'',
      ''python -c "from delta_optimizer import DeltaOptimizer; print('' @ [CHR 0x27] @ check_mark
        @ '' DeltaOptimizer import successful'' @ [CHR 0x27] @ '')"'',
      ''python examples/quick_start.py --dry-run'']\<close>

fun test_loop :: "string list \<Rightarrow> pyval io" where
  "test_loop [] = io_return (PyBool True)"
| "test_loop (test # rest) =
     io_bind (run_command test ''Running validation test'') (\<lambda>ok.
     if \<not> truthy ok then io_return (PyBool False) else test_loop rest)"

definition run_tests :: "pyval io" where
  "run_tests = test_loop tests"

text \<open>
  \<^verbatim>\<open>create_zip_package()\<close>. \<open>zip_item\<close> is the body of the loop over
  \<open>files_to_include\<close>: it extends the members written so far, and says which
  exception ended it, if one did. A walked file is stored under its path relative to
  \<^verbatim>\<open>os.path.dirname(item)\<close>, a listed file under its own name;
  \<^verbatim>\<open>zipf.write\<close> of a path that cannot be read raises.
\<close>

definition files_to_include :: "string list" where
  "files_to_include =
     [''delta_optimizer/'', ''examples/'', ''setup.py'', ''requirements.txt'', ''README.md'',
      ''LICENSE'', ''build_and_install.py'']"

definition zip_filename :: "date \<Rightarrow> string" where
  "zip_filename d = ''delta-optimizer-'' @ strftime_Ymd d @ ''.zip''"

fun zip_write_all ::
  "(string \<times> content option) list \<Rightarrow> (string \<times> content) list
     \<Rightarrow> error option \<times> (string \<times> content) list" where
  "zip_write_all [] zipf = (None, zipf)"
| "zip_write_all ((arcname, None) # rest) zipf = (Some FileNotFoundError, zipf)"
| "zip_write_all ((arcname, Some c) # rest) zipf = zip_write_all rest (zipf @ [(arcname, c)])"

definition zip_item ::
  "fsys \<Rightarrow> string \<Rightarrow> (string \<times> content) list \<Rightarrow> error option \<times> (string \<times> content) list" where
  "zip_item cwd item zipf =
     (if os_path_exists cwd item
      then (if os_path_isdir cwd item
            then (case resolve cwd item of
                    Some (Dir es) \<Rightarrow>
                      zip_write_all
                        (map (\<lambda>(file_path, c).
                                (os_path_relpath file_path (os_path_dirname item), c))
                           (walk_files item es))
                        zipf
                  | _ \<Rightarrow> (None, zipf))
            else (case resolve cwd item of
                    Some (File c) \<Rightarrow> (None, zipf @ [(item, c)])
                  | _ \<Rightarrow> (None, zipf)))
      else (None, zipf))"

fun zip_loop ::
  "fsys \<Rightarrow> string list \<Rightarrow> (string \<times> content) list \<Rightarrow> error option \<times> (string \<times> content) list" where
  "zip_loop cwd [] zipf = (None, zipf)"
| "zip_loop cwd (item # rest) zipf =
     (case zip_item cwd item zipf of
        (Some e, zipf') \<Rightarrow> (Some e, zipf')
      | (None, zipf') \<Rightarrow> zip_loop cwd rest zipf')"

definition create_zip_package :: "pyval io" where
  "create_zip_package = (\<lambda>w.
     let name = zip_filename (today w) in
     (io_bind (print (package @ '' Creating '' @ name @ ''...'')) (\<lambda>_.
      io_bind (zip_open name) (\<lambda>_. (\<lambda>w1.
      (case zip_loop (fs w1) files_to_include [] of
         (Some e, zipf) \<Rightarrow> io_bind (zip_close name zipf) (\<lambda>_. io_raise e)
       | (None, zipf) \<Rightarrow>
           io_bind (zip_close name zipf) (\<lambda>_.
           io_bind (print (check_mark @ '' Created '' @ name)) (\<lambda>_.
           io_return (PyStr name)))) w1)))) w)"

text \<open>The anonymous operation of menu key 7.\<close>

definition full_pipeline :: "pyval io" where
  "full_pipeline =
     py_and (py_and (py_and clean_build_files build_package) install_locally) run_tests"

subsection \<open>The menu\<close>

text \<open>
  The dictionary \<open>options\<close> of \<^verbatim>\<open>main\<close>, as the list of its items in insertion order:
  key, label, operation.
\<close>

type_synonym menu = "(string \<times> string \<times> pyval io) list"

definition options :: menu where
  "options =
     [(''1'', ''Clean build files'', clean_build_files),
      (''2'', ''Build package'', build_package),
      (''3'', ''Install locally'', install_locally),
      (''4'', ''Run tests'', run_tests),
      (''5'', ''Create ZIP package'', create_zip_package),
      (''6'', ''Upload to PyPI'', upload_to_pypi),
      (''7'', ''Full pipeline (clean+build+install+test)'', full_pipeline),
      (''8'', ''Exit'', sys_exit)]"

text \<open>The loop that displays the entries.\<close>

fun display_options :: "menu \<Rightarrow> pyval io" where
  "display_options [] = io_return PyNone"
| "display_options ((key, description, f) # rest) =
     io_bind (print (''  '' @ key @ ''. '' @ description)) (\<lambda>_. display_options rest)"

text \<open>One pass through the body of \<^verbatim>\<open>while True\<close>.\<close>

definition menu_iteration :: "menu \<Rightarrow> pyval io" where
  "menu_iteration opts =
     io_bind (print (CHR 0x0A # clipboard @ '' Available options:'')) (\<lambda>_.
     io_bind (display_options opts) (\<lambda>_.
     io_bind (input (CHR 0x0A # ''Select an option (1-8): '')) (\<lambda>line.
     let choice = strip line in
     case map_of opts choice of
       Some (description, function) \<Rightarrow>
         io_bind (print (CHR 0x0A # replicate 30 CHR ''='')) (\<lambda>_.
         io_bind (print (''Running: '' @ description)) (\<lambda>_.
         io_bind (print (replicate 30 CHR ''='')) (\<lambda>_.
         function)))
     | None \<Rightarrow> print (cross_mark @ '' Invalid option. Please choose 1-8.''))))"

text \<open>
  The loop has no exit of its own and runs as long as input keeps coming, so it is
  given fuel: \<open>None\<close> when the fuel runs out with the loop still going, otherwise the
  exception that ended it and the world at that point.
\<close>

fun main_loop :: "nat \<Rightarrow> menu \<Rightarrow> world \<Rightarrow> (error \<times> world) option" where
  "main_loop 0 opts w = None"
| "main_loop (Suc n) opts w =
     (case menu_iteration opts w of
        (Inl e, w') \<Rightarrow> Some (e, w')
      | (Inr v, w') \<Rightarrow> main_loop n opts w')"

definition main :: "nat \<Rightarrow> world \<Rightarrow> (error \<times> world) option" where
  "main n w =
     (case io_bind (print (replicate 50 CHR ''='')) (\<lambda>_.
           io_bind (print ''DeltaOptimizer Build and Installation System'') (\<lambda>_.
           print (replicate 50 CHR ''=''))) w of
        (Inl e, w') \<Rightarrow> Some (e, w')
      | (Inr v, w') \<Rightarrow> main_loop n options w')"

subsection \<open>Sample worlds\<close>

text \<open>
  Concrete worlds on which the results below are run: a shell in which every command
  succeeds silently, one in which every command fails, one in which every command
  succeeds after writing bytes that are not text, and a small working directory.
\<close>

definition quiet_shell :: "string \<Rightarrow> string list \<Rightarrow> fsys \<Rightarrow> string list \<Rightarrow> proc" where
  "quiet_shell command history cwd pending =
     \<lparr>returncode = 0, decodable = True, stdout = [], stderr = [],
      fs_after = cwd, stdin_after = pending\<rparr>"

definition failing_shell :: "string \<Rightarrow> string list \<Rightarrow> fsys \<Rightarrow> string list \<Rightarrow> proc" where
  "failing_shell command history cwd pending =
     \<lparr>returncode = 1, decodable = True, stdout = ''partial output'', stderr = ''no such tool'',
      fs_after = cwd, stdin_after = pending\<rparr>"

definition garbled_shell :: "string \<Rightarrow> string list \<Rightarrow> fsys \<Rightarrow> string list \<Rightarrow> proc" where
  "garbled_shell command history cwd pending =
     \<lparr>returncode = 0, decodable = False, stdout = [], stderr = [],
      fs_after = cwd, stdin_after = pending\<rparr>"

definition sample_fs :: fsys where
  "sample_fs =
     [(''delta_optimizer'', Dir [(''__init__.py'', File (Bytes ''import torch''))]),
      (''setup.py'', File (Bytes ''setup()'')),
      (''build'', Dir [(''lib'', Dir [])])]"

definition sample_world :: world where
  "sample_world =
     \<lparr>fs = sample_fs, stdin = [], out = [], cmds = [],
      today = \<lparr>year = 2026, month = 11, day = 4\<rparr>, shell = quiet_shell\<rparr>"

subsection \<open>Notions used to state the results\<close>

text \<open>What \<open>upload_to_pypi\<close> writes up to and including its prompt.\<close>

definition upload_notes :: "string list" where
  "upload_notes =
     [outbox @ '' Uploading to PyPI...'', ''Note: Make sure you have:'',
      ''1. twine installed: pip install twine'', ''2. PyPI credentials in ~/.pypirc'',
      ''3. Package version updated in setup.py'', ''Continue with upload? (y/N): '']"

text \<open>A path of one component: a name in the working directory.\<close>

definition simple_name :: "string \<Rightarrow> bool" where
  "simple_name d = (d \<noteq> [] \<and> CHR ''/'' \<notin> set d)"

text \<open>The keys 1 to 8, each a text of one character.\<close>

definition registered_keys :: "string list" where
  "registered_keys = map (\<lambda>c. [c]) ''12345678''"

text \<open>The lines the display loop prints for a menu.\<close>

definition menu_lines :: "menu \<Rightarrow> string list" where
  "menu_lines opts = map (\<lambda>(key, description, f). ''  '' @ key @ ''. '' @ description) opts"






section \<open>Properties\<close>

lemmas io_defs = io_bind_def io_return_def io_raise_def io_catch_def print_def

subsection \<open>Running an external command\<close>

lemma run_command_unfold:
  "run_command command description w =
     (if CHR 0x00 \<in> set command
      then (Inl ValueError, w\<lparr>out := out w @ [rocket @ '' '' @ description @ ''...'']\<rparr>)
      else
      let p = shell w command (cmds w) (fs w) (stdin w);
          w' = w\<lparr>fs := fs_after p, stdin := stdin_after p, cmds := cmds w @ [command]\<rparr>
      in if \<not> decodable p
         then (Inl UnicodeDecodeError, w'\<lparr>out := out w @ [rocket @ '' '' @ description @ ''...'']\<rparr>)
         else if returncode p \<noteq> 0
         then (Inr (PyBool False),
               w'\<lparr>out := out w @ [rocket @ '' '' @ description @ ''...'',
                                  cross_mark @ '' '' @ description @ '' failed:'',
                                  ''Error: '' @ stderr p]\<rparr>)
         else (Inr (PyBool True),
               w'\<lparr>out := out w @ [rocket @ '' '' @ description @ ''...'',
                                  check_mark @ '' '' @ description @ '' completed successfully'']\<rparr>))"
  by (simp add: run_command_def io_defs subprocess_run_def Let_def)

text \<open>
  C3, as amended. \<open>run_command\<close> spawns the command once and keeps its output away
  from the terminal: \<open>out\<close> grows by the script's own lines only. When the command
  line has no NUL character and the captured output decodes as text, a command that
  exits with a non-zero status makes it print
  the failure line and the captured error text and return \<open>False\<close>, and a command
  that exits with status zero makes it print the success line and return \<open>True\<close>;
  no exception escapes either way.
\<close>

theorem run_command_result:
  "p = shell w command (cmds w) (fs w) (stdin w) \<Longrightarrow>
   w' = w\<lparr>fs := fs_after p, stdin := stdin_after p, cmds := cmds w @ [command]\<rparr> \<Longrightarrow>
   CHR 0x00 \<notin> set command \<Longrightarrow> decodable p \<Longrightarrow>
   (returncode p \<noteq> 0 \<longrightarrow>
      run_command command description w =
        (Inr (PyBool False),
         w'\<lparr>out := out w @ [rocket @ '' '' @ description @ ''...'',
                            cross_mark @ '' '' @ description @ '' failed:'',
                            ''Error: '' @ stderr p]\<rparr>))
   \<and> (returncode p = 0 \<longrightarrow>
      run_command command description w =
        (Inr (PyBool True),
         w'\<lparr>out := out w @ [rocket @ '' '' @ description @ ''...'',
                            check_mark @ '' '' @ description @ '' completed successfully'']\<rparr>))"
  by (simp add: run_command_unfold Let_def)

theorem run_command_result_witness:
  "fst (run_command ''pip install .'' ''Installing'' (sample_world\<lparr>shell := failing_shell\<rparr>))
     = Inr (PyBool False)
   \<and> out (snd (run_command ''pip install .'' ''Installing'' (sample_world\<lparr>shell := failing_shell\<rparr>)))
     = [rocket @ '' Installing...'', cross_mark @ '' Installing failed:'', ''Error: no such tool'']
   \<and> fst (run_command ''pip install .'' ''Installing'' sample_world) = Inr (PyBool True)
   \<and> out (snd (run_command ''pip install .'' ''Installing'' sample_world))
     = [rocket @ '' Installing...'', check_mark @ '' Installing completed successfully'']"
  using run_command_result [OF refl refl, where w = "sample_world\<lparr>shell := failing_shell\<rparr>"
      and command = "''pip install .''" and description = "''Installing''"]
    run_command_result [OF refl refl, where w = sample_world
      and command = "''pip install .''" and description = "''Installing''"]
  by (simp add: sample_world_def failing_shell_def quiet_shell_def)

text \<open>
  A command that exits with status zero after writing bytes that are not text:
  \<^verbatim>\<open>subprocess.run\<close> raises while decoding, the handler for
  \<^verbatim>\<open>CalledProcessError\<close> does not apply, and \<open>run_command\<close> ends in the exception
  with the opening line printed and neither of the two result lines.
\<close>

theorem run_command_garbled_counterexample:
  "returncode (garbled_shell ''pip install .'' [] sample_fs []) = 0
   \<and> run_command ''pip install .'' ''Installing'' (sample_world\<lparr>shell := garbled_shell\<rparr>)
       = (Inl UnicodeDecodeError,
          sample_world\<lparr>shell := garbled_shell, cmds := [''pip install .''],
                         out := [rocket @ '' Installing...'']\<rparr>)"
  by (simp add: run_command_unfold Let_def sample_world_def garbled_shell_def)

subsection \<open>The upload and its confirmation\<close>

lemma char_eq_nat: "(c = d) = ((of_char c :: nat) = of_char d)"
  by simp

lemma of_char_char_of_small: "n < 256 \<Longrightarrow> (of_char (char_of (n::nat)) :: nat) = n"
  by simp

text \<open>Only the two letters y and Y become y in lower case.\<close>

lemma lower_char_y: "lower_char c = CHR ''y'' \<longleftrightarrow> c = CHR ''y'' \<or> c = CHR ''Y''"
proof -
  let ?n = "of_char c :: nat"
  have y: "(c = CHR ''Y'') = (?n = 89)" by (subst char_eq_nat) simp
  have y2: "(c = CHR ''y'') = (?n = 121)" by (subst char_eq_nat) simp
  show ?thesis
  proof (cases "(65 \<le> ?n \<and> ?n \<le> 90) \<or> (192 \<le> ?n \<and> ?n \<le> 222 \<and> ?n \<noteq> 215)")
    case True
    then have small: "?n + 32 < 256" by arith
    have "lower_char c = char_of (?n + 32)"
      using True by (simp add: lower_char_def Let_def)
    then have "(lower_char c = CHR ''y'')
        = ((of_char (char_of (?n + 32)) :: nat) = of_char CHR ''y'')"
      by (simp only: char_eq_nat)
    also have "\<dots> = (?n + 32 = 121)"
      using small by (simp only: of_char_char_of_small) simp
    also have "\<dots> = (?n = 89)" by arith
    finally have l: "(lower_char c = CHR ''y'') = (?n = 89)" .
    from True have "?n \<noteq> 121" by arith
    with l y y2 show ?thesis by simp
  next
    case False
    then have l: "lower_char c = c"
      unfolding lower_char_def Let_def by (simp only: if_False)
    from False have "?n \<noteq> 89" by arith
    with l y show ?thesis by simp
  qed
qed

lemma lower_y: "lower r = ''y'' \<longleftrightarrow> r = ''y'' \<or> r = ''Y''"
  by (cases r) (auto simp: lower_def lower_char_y)

lemma upload_unfold:
  "stdin w = r # rest \<Longrightarrow>
   upload_to_pypi w =
     (if lower r \<noteq> ''y''
      then (Inr (PyBool False),
            w\<lparr>out := out w @ upload_notes @ [''Upload cancelled''], stdin := rest\<rparr>)
      else run_command ''twine upload dist/*'' ''Uploading to PyPI''
             (w\<lparr>out := out w @ upload_notes, stdin := rest\<rparr>))"
  by (simp add: upload_to_pypi_def io_defs input_def upload_notes_def)

text \<open>
  C5. When the line read at the confirmation prompt is anything but an affirmative y
  (the letter y, small or capital), \<open>upload_to_pypi\<close> spawns no command, so twine is not
  invoked, prints that the upload is cancelled and returns \<open>False\<close>.
\<close>

theorem upload_declined:
  "stdin w = r # rest \<Longrightarrow> r \<noteq> ''y'' \<Longrightarrow> r \<noteq> ''Y'' \<Longrightarrow>
   upload_to_pypi w =
     (Inr (PyBool False), w\<lparr>out := out w @ upload_notes @ [''Upload cancelled''], stdin := rest\<rparr>)
   \<and> cmds (snd (upload_to_pypi w)) = cmds w"
  by (simp add: upload_unfold lower_y)

theorem upload_declined_witness:
  "fst (upload_to_pypi (sample_world\<lparr>stdin := [''n'']\<rparr>)) = Inr (PyBool False)
   \<and> cmds (snd (upload_to_pypi (sample_world\<lparr>stdin := [''n'']\<rparr>))) = []
   \<and> fst (upload_to_pypi (sample_world\<lparr>stdin := ['''']\<rparr>)) = Inr (PyBool False)
   \<and> cmds (snd (upload_to_pypi (sample_world\<lparr>stdin := ['''']\<rparr>))) = []"
  using upload_declined [of "sample_world\<lparr>stdin := [''n'']\<rparr>" "''n''" "[]"]
    upload_declined [of "sample_world\<lparr>stdin := ['''']\<rparr>" "''''" "[]"]
  by (simp add: sample_world_def)

text \<open>
  C9. The confirmation is decided on the lower-cased line as read, nothing stripped:
  the upload command is spawned exactly when the line is \<open>y\<close> or \<open>Y\<close>, and for every
  other line, such as one with a blank before the letter, no command is spawned.
\<close>

theorem upload_confirmation:
  "stdin w = r # rest \<Longrightarrow>
   cmds (snd (upload_to_pypi w)) =
     (if r = ''y'' \<or> r = ''Y'' then cmds w @ [''twine upload dist/*''] else cmds w)"
  by (simp add: upload_unfold lower_y run_command_unfold Let_def)

theorem upload_confirmation_witness:
  "cmds (snd (upload_to_pypi (sample_world\<lparr>stdin := [''Y'']\<rparr>))) = [''twine upload dist/*'']
   \<and> cmds (snd (upload_to_pypi (sample_world\<lparr>stdin := [''y'']\<rparr>))) = [''twine upload dist/*'']
   \<and> cmds (snd (upload_to_pypi (sample_world\<lparr>stdin := ['' y'']\<rparr>))) = []
   \<and> cmds (snd (upload_to_pypi (sample_world\<lparr>stdin := [''yes'']\<rparr>))) = []"
  using upload_confirmation [of "sample_world\<lparr>stdin := [''Y'']\<rparr>" "''Y''" "[]"]
    upload_confirmation [of "sample_world\<lparr>stdin := [''y'']\<rparr>" "''y''" "[]"]
    upload_confirmation [of "sample_world\<lparr>stdin := ['' y'']\<rparr>" "'' y''" "[]"]
    upload_confirmation [of "sample_world\<lparr>stdin := [''yes'']\<rparr>" "''yes''" "[]"]
  by (simp add: sample_world_def)

subsection \<open>Cleaning and the full pipeline\<close>

lemma split_slash_simple: "CHR ''/'' \<notin> set d \<Longrightarrow> split_slash d = [d]"
  by (induction d) auto

lemma resolve_simple:
  "d \<noteq> [] \<Longrightarrow> CHR ''/'' \<notin> set d \<Longrightarrow>
   resolve cwd d = (case map_of cwd d of None \<Rightarrow> None | Some n \<Rightarrow> follow n)"
  by (simp add: resolve_def split_slash_simple split: option.splits)

lemma exists_simple:
  "simple_name d \<Longrightarrow>
   os_path_exists cwd d = (case map_of cwd d of None \<Rightarrow> False | Some n \<Rightarrow> follow n \<noteq> None)"
  by (simp add: os_path_exists_def resolve_simple simple_name_def split: option.splits)

lemma exists_delete:
  "simple_name k \<Longrightarrow>
   os_path_exists (AList.delete d cwd) k = (k \<noteq> d \<and> os_path_exists cwd k)"
  by (simp add: exists_simple delete_conv')

lemma rmtree_cases:
  "shutil_rmtree d w = (Inr PyNone, w\<lparr>fs := AList.delete d (fs w)\<rparr>)
   \<or> (\<exists>e. shutil_rmtree d w = (Inl e, w))"
  by (simp add: shutil_rmtree_def split: option.splits node.splits)

lemma clean_loop_cmds: "cmds (snd (clean_loop ds w)) = cmds w"
proof (induction ds arbitrary: w)
  case Nil
  show ?case by (simp add: io_defs)
next
  case (Cons d ds)
  from rmtree_cases [of d w] show ?case
    using Cons.IH [of w]
      Cons.IH [of "w\<lparr>fs := AList.delete d (fs w), out := out w @ [broom @ '' Removed '' @ d @ ''/'']\<rparr>"]
    by (auto simp: io_defs)
qed

lemma clean_loop_value: "fst (clean_loop ds w) = Inr v \<Longrightarrow> v = PyNone"
proof (induction ds arbitrary: w)
  case Nil
  then show ?case by (simp add: io_defs)
next
  case (Cons d ds)
  from rmtree_cases [of d w] Cons.prems show ?case
    using Cons.IH [of w]
      Cons.IH [of "w\<lparr>fs := AList.delete d (fs w), out := out w @ [broom @ '' Removed '' @ d @ ''/'']\<rparr>"]
    by (auto simp: io_defs split: if_splits)
qed

lemma clean_build_files_loop: "clean_build_files w = clean_loop build_dirs w"
proof (cases "clean_loop build_dirs w")
  case (Pair r w')
  show ?thesis
  proof (cases r)
    case (Inl e)
    with Pair show ?thesis by (simp add: clean_build_files_def io_defs)
  next
    case (Inr v)
    with Pair clean_loop_value [of build_dirs w v] show ?thesis
      by (simp add: clean_build_files_def io_defs)
  qed
qed

lemma clean_build_files_value: "fst (clean_build_files w) = Inr v \<Longrightarrow> v = PyNone"
  by (simp add: clean_build_files_loop clean_loop_value)

lemma py_and_falsy: "fst (a w) = Inr v \<Longrightarrow> \<not> truthy v \<Longrightarrow> py_and a b w = a w"
  by (cases "a w") (simp add: py_and_def io_defs)

lemma py_and_raise: "fst (a w) = Inl e \<Longrightarrow> py_and a b w = a w"
  by (cases "a w") (simp add: py_and_def io_defs)

lemma py_and_clean: "py_and clean_build_files b w = clean_build_files w"
proof (cases "fst (clean_build_files w)")
  case (Inl e)
  then show ?thesis by (rule py_and_raise)
next
  case (Inr v)
  then have "v = PyNone" by (rule clean_build_files_value)
  with Inr show ?thesis by (simp add: py_and_falsy)
qed

text \<open>
  C1. What the operation of key 7 does: \<open>clean_build_files\<close> has no return
  statement, its value \<^verbatim>\<open>None\<close> counts as false, and the chain of \<^verbatim>\<open>and\<close> ends
  there. In every world the full pipeline is the clean step alone: it spawns no command,
  so neither build nor install nor test runs, also when clean went through.
\<close>

theorem full_pipeline_is_clean:
  "full_pipeline w = clean_build_files w \<and> cmds (snd (full_pipeline w)) = cmds w"
proof -
  have 1: "py_and clean_build_files build_package w = clean_build_files w"
    by (rule py_and_clean)
  have 2: "py_and (py_and clean_build_files build_package) install_locally w = clean_build_files w"
  proof (cases "fst (clean_build_files w)")
    case (Inl e)
    then show ?thesis using 1 by (simp add: py_and_raise)
  next
    case (Inr v)
    then have "v = PyNone" by (rule clean_build_files_value)
    with Inr 1 show ?thesis by (simp add: py_and_falsy)
  qed
  have 3: "full_pipeline w = clean_build_files w"
  proof (cases "fst (clean_build_files w)")
    case (Inl e)
    then show ?thesis using 2 by (simp add: full_pipeline_def py_and_raise)
  next
    case (Inr v)
    then have "v = PyNone" by (rule clean_build_files_value)
    with Inr 2 show ?thesis by (simp add: full_pipeline_def py_and_falsy)
  qed
  then show ?thesis by (simp add: clean_build_files_loop clean_loop_cmds)
qed

lemma clean_loop_noop:
  "\<forall>d\<in>set ds. \<not> os_path_exists (fs w) d \<Longrightarrow> clean_loop ds w = (Inr PyNone, w)"
  by (induction ds) (auto simp: io_defs)

lemma clean_loop_dirs:
  "\<forall>d\<in>set ds. simple_name d \<Longrightarrow>
   \<forall>d\<in>set ds. \<not> os_path_exists (fs w) d \<or> (\<exists>es. map_of (fs w) d = Some (Dir es)) \<Longrightarrow>
   \<exists>w1. clean_loop ds w = (Inr PyNone, w1)
        \<and> (\<forall>d\<in>set ds. \<not> os_path_exists (fs w1) d)
        \<and> (\<forall>k. simple_name k \<longrightarrow> \<not> os_path_exists (fs w) k \<longrightarrow> \<not> os_path_exists (fs w1) k)"
proof (induction ds arbitrary: w)
  case Nil
  then show ?case by (simp add: io_defs)
next
  case (Cons d ds)
  have sd: "simple_name d" using Cons.prems(1) by simp
  show ?case
  proof (cases "os_path_exists (fs w) d")
    case False
    have "\<exists>w1. clean_loop ds w = (Inr PyNone, w1)
        \<and> (\<forall>d\<in>set ds. \<not> os_path_exists (fs w1) d)
        \<and> (\<forall>k. simple_name k \<longrightarrow> \<not> os_path_exists (fs w) k \<longrightarrow> \<not> os_path_exists (fs w1) k)"
      using Cons.prems by (intro Cons.IH) auto
    then obtain w1 where w1: "clean_loop ds w = (Inr PyNone, w1)"
        "\<forall>d\<in>set ds. \<not> os_path_exists (fs w1) d"
        "\<forall>k. simple_name k \<longrightarrow> \<not> os_path_exists (fs w) k \<longrightarrow> \<not> os_path_exists (fs w1) k"
      by blast
    from False sd w1 show ?thesis by auto
  next
    case True
    then obtain es where n: "map_of (fs w) d = Some (Dir es)"
      using Cons.prems(2) by auto
    let ?w = "w\<lparr>fs := AList.delete d (fs w), out := out w @ [broom @ '' Removed '' @ d @ ''/'']\<rparr>"
    have step: "clean_loop (d # ds) w = clean_loop ds ?w"
      using n True by (simp add: io_defs shutil_rmtree_def)
    have gone: "\<And>k. simple_name k \<Longrightarrow>
        os_path_exists (fs ?w) k = (k \<noteq> d \<and> os_path_exists (fs w) k)"
      by (simp add: exists_delete)
    have kept: "\<And>k. k \<noteq> d \<Longrightarrow> map_of (fs ?w) k = map_of (fs w) k"
      by (simp add: delete_conv')
    have pre: "\<forall>d'\<in>set ds.
        \<not> os_path_exists (fs ?w) d' \<or> (\<exists>es. map_of (fs ?w) d' = Some (Dir es))"
    proof
      fix d' assume d': "d' \<in> set ds"
      then have sd': "simple_name d'" using Cons.prems(1) by simp
      show "\<not> os_path_exists (fs ?w) d' \<or> (\<exists>es. map_of (fs ?w) d' = Some (Dir es))"
      proof (cases "d' = d")
        case True
        then show ?thesis using gone [OF sd'] by simp
      next
        case False
        with d' Cons.prems(2) gone [OF sd'] kept [OF False] show ?thesis by auto
      qed
    qed
    have "\<exists>w1. clean_loop ds ?w = (Inr PyNone, w1)
        \<and> (\<forall>d\<in>set ds. \<not> os_path_exists (fs w1) d)
        \<and> (\<forall>k. simple_name k \<longrightarrow> \<not> os_path_exists (fs ?w) k \<longrightarrow> \<not> os_path_exists (fs w1) k)"
      using Cons.prems(1) pre by (intro Cons.IH) auto
    then obtain w1 where w1: "clean_loop ds ?w = (Inr PyNone, w1)"
        "\<forall>d\<in>set ds. \<not> os_path_exists (fs w1) d"
        "\<forall>k. simple_name k \<longrightarrow> \<not> os_path_exists (fs ?w) k \<longrightarrow> \<not> os_path_exists (fs w1) k"
      by blast
    have "\<not> os_path_exists (fs w1) d" using w1(3) gone [OF sd] sd by blast
    moreover have "\<forall>k. simple_name k \<longrightarrow> \<not> os_path_exists (fs w) k \<longrightarrow> \<not> os_path_exists (fs w1) k"
      using w1(3) gone by blast
    ultimately show ?thesis using step w1(1,2) by simp
  qed
qed

lemma build_dirs_simple: "\<forall>d\<in>set build_dirs. simple_name d"
  by (simp add: build_dirs_def simple_name_def)

text \<open>
  C6, as amended. When each of the three build names either does not exist (nothing of
  that name, or a dangling link) or is a directory itself, not a link to one,
  \<open>clean_build_files\<close> returns without an exception, a second run right after it
  returns too and leaves the world exactly as the first run left it, and none of the
  three names exists then.
\<close>

theorem clean_twice:
  "\<forall>d\<in>set build_dirs.
     \<not> os_path_exists (fs w) d \<or> (\<exists>es. map_of (fs w) d = Some (Dir es)) \<Longrightarrow>
   \<exists>w1. clean_build_files w = (Inr PyNone, w1)
      \<and> clean_build_files w1 = (Inr PyNone, w1)
      \<and> (\<forall>d\<in>set build_dirs. \<not> os_path_exists (fs w1) d)"
proof -
  assume a: "\<forall>d\<in>set build_dirs.
     \<not> os_path_exists (fs w) d \<or> (\<exists>es. map_of (fs w) d = Some (Dir es))"
  with build_dirs_simple obtain w1 where w1: "clean_loop build_dirs w = (Inr PyNone, w1)"
      "\<forall>d\<in>set build_dirs. \<not> os_path_exists (fs w1) d"
    using clean_loop_dirs [of build_dirs w] by blast
  have "clean_loop build_dirs w1 = (Inr PyNone, w1)"
    using w1(2) by (rule clean_loop_noop)
  then show ?thesis using w1 by (simp add: clean_build_files_loop)
qed

theorem clean_twice_witness:
  "\<exists>w1. clean_build_files
          (sample_world\<lparr>fs := sample_fs @ [(''dist'', Symlink None)]\<rparr>) = (Inr PyNone, w1)
      \<and> clean_build_files w1 = (Inr PyNone, w1)
      \<and> (\<forall>d\<in>set build_dirs. \<not> os_path_exists (fs w1) d)"
  by (rule clean_twice)
     (simp add: build_dirs_def sample_world_def sample_fs_def os_path_exists_def resolve_def)

text \<open>
  A regular file named \<^verbatim>\<open>build\<close> exists, so the script hands it to
  \<^verbatim>\<open>shutil.rmtree\<close>, which refuses what is not a directory.
\<close>

theorem clean_file_counterexample:
  "fst (clean_build_files (sample_world\<lparr>fs := [(''build'', File (Bytes ''notes''))]\<rparr>))
     = Inl NotADirectoryError"
  by (simp add: clean_build_files_def build_dirs_def io_defs os_path_exists_def resolve_def
      shutil_rmtree_def)

subsection \<open>The menu and its loop\<close>

lemma display_options_eq:
  "display_options opts w = (Inr PyNone, w\<lparr>out := out w @ menu_lines opts\<rparr>)"
  by (induction opts arbitrary: w) (auto simp: io_defs menu_lines_def)

lemma options_lookup_None:
  "k \<notin> set registered_keys \<Longrightarrow> map_of options k = None"
  by (simp add: options_def registered_keys_def)

lemma menu_iteration_invalid:
  "stdin w = line # rest \<Longrightarrow> map_of opts (strip line) = None \<Longrightarrow>
   menu_iteration opts w =
     (Inr PyNone,
      w\<lparr>out := out w @ [CHR 0x0A # clipboard @ '' Available options:''] @ menu_lines opts
                @ [CHR 0x0A # ''Select an option (1-8): '',
                   cross_mark @ '' Invalid option. Please choose 1-8.''],
        stdin := rest\<rparr>)"
  by (simp add: menu_iteration_def io_defs display_options_eq input_def)

text \<open>
  C4. When the line read at the menu prompt, stripped of surrounding white space, is
  none of the keys 1 to 8, the pass through the loop body ends without an exception:
  it has printed the menu and the invalid-option message, consumed the line, spawned
  no command and left the working directory alone, so no operation ran; and the loop
  goes on to its next pass with the same menu.
\<close>

theorem invalid_key:
  "stdin w = line # rest \<Longrightarrow>
   strip line \<notin> set registered_keys \<Longrightarrow>
   w' = w\<lparr>out := out w @ [CHR 0x0A # clipboard @ '' Available options:''] @ menu_lines options
                @ [CHR 0x0A # ''Select an option (1-8): '',
                   cross_mark @ '' Invalid option. Please choose 1-8.''],
          stdin := rest\<rparr> \<Longrightarrow>
   menu_iteration options w = (Inr PyNone, w')
   \<and> cmds w' = cmds w \<and> fs w' = fs w
   \<and> main_loop (Suc n) options w = main_loop n options w'"
  by (simp add: menu_iteration_invalid options_lookup_None)

theorem invalid_key_witness:
  "fst (menu_iteration options (sample_world\<lparr>stdin := ['' 9 '', ''8'']\<rparr>)) = Inr PyNone
   \<and> last (out (snd (menu_iteration options (sample_world\<lparr>stdin := ['' 9 '', ''8'']\<rparr>))))
       = cross_mark @ '' Invalid option. Please choose 1-8.''
   \<and> stdin (snd (menu_iteration options (sample_world\<lparr>stdin := ['' 9 '', ''8'']\<rparr>))) = [''8'']
   \<and> main_loop 2 options (sample_world\<lparr>stdin := ['' 9 '', ''8'']\<rparr>)
       = main_loop 1 options (snd (menu_iteration options (sample_world\<lparr>stdin := ['' 9 '', ''8'']\<rparr>)))"
  using invalid_key [of "sample_world\<lparr>stdin := ['' 9 '', ''8'']\<rparr>" "'' 9 ''" "[''8'']" _ 1, OF _ _ refl]
  by (simp add: sample_world_def strip_def is_space_def numeral_2_eq_2 registered_keys_def)

text \<open>
  C8. The menu has the keys 1 to 8, each once, so every registered entry is the one its
  key looks up; the display loop prints the entries in the order of registration; and
  each pass of the main loop hands the menu it was given on to the next pass, unchanged
  (the menu is a value of \<open>main\<close> that no statement assigns to and no operation
  receives).
\<close>

theorem menu_keys:
  "map fst options = registered_keys
   \<and> distinct (map fst options)
   \<and> (\<forall>(key, entry) \<in> set options. map_of options key = Some entry)
   \<and> display_options options w = (Inr PyNone, w\<lparr>out := out w @ menu_lines options\<rparr>)
   \<and> menu_lines options =
       [''  1. Clean build files'', ''  2. Build package'', ''  3. Install locally'',
        ''  4. Run tests'', ''  5. Create ZIP package'', ''  6. Upload to PyPI'',
        ''  7. Full pipeline (clean+build+install+test)'', ''  8. Exit'']
   \<and> main_loop (Suc n) opts w =
       (case menu_iteration opts w of
          (Inl e, w') \<Rightarrow> Some (e, w')
        | (Inr v, w') \<Rightarrow> main_loop n opts w')"
proof -
  have keys: "map fst options = registered_keys"
    by (simp add: options_def registered_keys_def)
  then have d: "distinct (map fst options)" by (simp add: registered_keys_def)
  have "\<forall>(key, entry) \<in> set options. map_of options key = Some entry"
    using d by auto
  moreover have "menu_lines options =
       [''  1. Clean build files'', ''  2. Build package'', ''  3. Install locally'',
        ''  4. Run tests'', ''  5. Create ZIP package'', ''  6. Upload to PyPI'',
        ''  7. Full pipeline (clean+build+install+test)'', ''  8. Exit'']"
    by (simp add: options_def menu_lines_def)
  ultimately show ?thesis using keys d by (simp add: display_options_eq)
qed

theorem menu_keys_witness:
  "map_of options ''7'' = Some (''Full pipeline (clean+build+install+test)'', full_pipeline)
   \<and> out (snd (display_options options sample_world)) ! 6
       = ''  7. Full pipeline (clean+build+install+test)''"
  using menu_keys [of sample_world 0 options]
  by (simp add: options_def sample_world_def)

subsection \<open>What the operations return\<close>







subsection \<open>The ZIP package\<close>















































end
